theory Spec2Isabelle
  imports Main
begin

section \<open>Data sockets of the FTP server (socket.go)\<close>

text \<open>
  The file \<^verbatim>\<open>socket.go\<close> implements the two data sockets of the server: the active
  socket, which dials the client, and the passive socket, which listens and accepts one
  connection in a goroutine. The operating system and the Go packages \<^verbatim>\<open>net\<close>,
  \<^verbatim>\<open>crypto/tls\<close>, \<^verbatim>\<open>strconv\<close> and \<^verbatim>\<open>strings\<close> are outside the file. What the
  network answers is a parameter of the model (the record \<open>net\<close> and the results carried
  by the events); the string functions are modelled after their documented behaviour.
\<close>

subsection \<open>Errors, addresses, listeners, connections\<close>

text \<open>
  A Go \<^verbatim>\<open>error\<close> is an interface value; \<^verbatim>\<open>nil\<close> is \<open>None\<close> of \<open>error option\<close>.
  \<open>SyntaxError\<close> and \<open>RangeError\<close> are the two \<^verbatim>\<open>strconv.NumError\<close>s of \<^verbatim>\<open>Atoi\<close>,
  \<open>NetError\<close> is any error of package \<^verbatim>\<open>net\<close>.
\<close>

datatype error = SyntaxError string | RangeError string | NetError string

text \<open>
  \<^verbatim>\<open>net.TCPAddr\<close>. \<open>IP\<close> holds the textual form of the address (empty for the
  unspecified address of a nil IP), as \<^verbatim>\<open>TCPAddr.String\<close> prints it.
\<close>

record TCPAddr =
  IP :: string
  Port :: int
  Zone :: string

text \<open>An opaque \<^verbatim>\<open>*tls.Config\<close>; the nil pointer is \<open>None\<close>.\<close>

datatype tls_config = TLSConfig nat

text \<open>A file descriptor names a TCP connection of the operating system.\<close>

type_synonym fd = nat

text \<open>
  \<^verbatim>\<open>net.Listener\<close>: the TCP listener bound to an address, or the listener that
  \<^verbatim>\<open>tls.NewListener\<close> puts around another one.
\<close>

datatype listener = TCPListener TCPAddr | TLSListener listener tls_config

text \<open>
  \<^verbatim>\<open>net.Conn\<close>: a TCP connection, or the server side of a TLS connection over
  another connection (what a TLS listener's \<^verbatim>\<open>Accept\<close> returns).
\<close>

datatype conn = TCPConn fd | TLSServer conn tls_config

text \<open>
  The message of \<^verbatim>\<open>logger.Print(sessionID, message interface{})\<close> is a string or an
  error in this file.
\<close>

datatype message = Text string | Err error

text \<open>
  Everything the code does to the outside world, in order: diagnostic lines, calls to
  package \<^verbatim>\<open>net\<close>, the \<^verbatim>\<open>go\<close> statement, and calls on a connection.
\<close>

datatype effect =
    Print string message
  | CallResolveTCPAddr string
  | CallDialTCP TCPAddr
  | CallListenTCP TCPAddr
  | GoAccept listener
  | ConnRead conn
  | ConnWrite conn
  | ConnClose conn

text \<open>
  What the network answers to the three calls of package \<^verbatim>\<open>net\<close> that the
  constructors make.
\<close>

record net =
  ResolveTCPAddr :: "string \<Rightarrow> error + TCPAddr"
  DialTCP :: "TCPAddr \<Rightarrow> error + fd"
  ListenTCP :: "TCPAddr \<Rightarrow> error + TCPAddr"

subsection \<open>The string functions of the Go library\<close>

text \<open>
  \<^verbatim>\<open>strconv.Itoa\<close>: the decimal digits of an \<^verbatim>\<open>int\<close>, most significant first, with a
  leading minus sign for a negative number.
\<close>

definition digit_char :: "nat \<Rightarrow> char" where
  "digit_char d = ''0123456789'' ! d"

fun FormatUint :: "nat \<Rightarrow> string" where
  "FormatUint n =
     (if n < 10 then [digit_char n] else FormatUint (n div 10) @ [digit_char (n mod 10)])"

declare FormatUint.simps [simp del]

definition Itoa :: "int \<Rightarrow> string" where
  "Itoa i = (if i < 0 then CHR ''-'' # FormatUint (nat (- i)) else FormatUint (nat i))"

text \<open>
  \<^verbatim>\<open>strconv.Atoi\<close> is \<^verbatim>\<open>ParseInt(s, 10, 0)\<close>: an optional sign, then one or more
  decimal digits and nothing else; a syntax error otherwise, and a range error when the
  value does not fit the 64-bit \<^verbatim>\<open>int\<close>.
\<close>

definition digit_val :: "char \<Rightarrow> nat option" where
  "digit_val c =
     (let v = (of_char c :: nat) in if 48 \<le> v \<and> v \<le> 57 then Some (v - 48) else None)"

fun parse_digits :: "nat \<Rightarrow> string \<Rightarrow> nat option" where
  "parse_digits n [] = Some n"
| "parse_digits n (c # cs) =
     (case digit_val c of None \<Rightarrow> None | Some d \<Rightarrow> parse_digits (n * 10 + d) cs)"

definition Atoi :: "string \<Rightarrow> error + int" where
  "Atoi s =
     (case s of
        [] \<Rightarrow> Inl (SyntaxError s)
      | c # cs \<Rightarrow>
          (let body = (if c = CHR ''-'' \<or> c = CHR ''+'' then cs else s) in
           if body = [] then Inl (SyntaxError s)
           else (case parse_digits 0 body of
                   None \<Rightarrow> Inl (SyntaxError s)
                 | Some n \<Rightarrow>
                     (let v = (if c = CHR ''-'' then - int n else int n) in
                      if v < - (2 ^ 63) \<or> 2 ^ 63 - 1 < v then Inl (RangeError s)
                      else Inr v))))"

text \<open>
  \<^verbatim>\<open>strings.Split(s, sep)\<close> for a separator of one byte (the source splits at
  \<^verbatim>\<open>":"\<close>): the pieces between the separators, in order. A string without the
  separator, the empty one too, gives one piece.
\<close>

fun Split :: "string \<Rightarrow> char \<Rightarrow> string list" where
  "Split [] sep = [[]]"
| "Split (c # cs) sep =
     (if c = sep then [] # Split cs sep
      else (case Split cs sep of [] \<Rightarrow> [[c]] | p # ps \<Rightarrow> (c # p) # ps))"

text \<open>
  \<^verbatim>\<open>net.JoinHostPort\<close>: a host with a colon is taken for an IPv6 literal and put in
  brackets.
\<close>

definition JoinHostPort :: "string \<Rightarrow> string \<Rightarrow> string" where
  "JoinHostPort h p =
     (if CHR '':'' \<in> set h then ''['' @ h @ '']:'' @ p else h @ '':'' @ p)"

text \<open>\<^verbatim>\<open>TCPAddr.String\<close>: host and port joined, the zone after a percent sign.\<close>

definition TCPAddr_String :: "TCPAddr \<Rightarrow> string" where
  "TCPAddr_String a =
     (if Zone a \<noteq> [] then JoinHostPort (IP a @ ''%'' @ Zone a) (Itoa (Port a))
      else JoinHostPort (IP a) (Itoa (Port a)))"

text \<open>\<^verbatim>\<open>Listener.Addr\<close>: a TLS listener answers with the address of the one inside.\<close>

fun Addr :: "listener \<Rightarrow> TCPAddr" where
  "Addr (TCPListener a) = a"
| "Addr (TLSListener l c) = Addr l"

text \<open>
  \<^verbatim>\<open>Listener.Accept\<close>, given what the operating system's accept returns: a TLS
  listener wraps the accepted connection and passes an error on.
\<close>

fun Accept :: "listener \<Rightarrow> error + fd \<Rightarrow> error + conn" where
  "Accept (TCPListener a) r = (case r of Inl e \<Rightarrow> Inl e | Inr c \<Rightarrow> Inr (TCPConn c))"
| "Accept (TLSListener l cfg) r =
     (case Accept l r of Inl e \<Rightarrow> Inl e | Inr c \<Rightarrow> Inr (TLSServer c cfg))"

text \<open>Whether a connection is TLS-wrapped.\<close>

fun is_tls :: "conn \<Rightarrow> bool" where
  "is_tls (TCPConn c) = False"
| "is_tls (TLSServer c cfg) = True"

subsection \<open>The active socket\<close>

text \<open>
  \<^verbatim>\<open>ftpActiveSocket\<close>. The field \<^verbatim>\<open>logger\<close> is the diagnostics sink, which the
  model keeps as the \<open>Print\<close> effects.
\<close>

record ftpActiveSocket =
  conn :: fd
  host :: string
  port :: int

text \<open>
  \<^verbatim>\<open>newActiveSocket(remote, port, logger, sessionID)\<close>: the effects in order, and the
  error or the socket.
\<close>

definition newActiveSocket ::
  "net \<Rightarrow> string \<Rightarrow> int \<Rightarrow> string \<Rightarrow> effect list \<times> (error + ftpActiveSocket)" where
  "newActiveSocket nw remote p sessionID =
     (let connectTo = JoinHostPort remote (Itoa p);
          fx0 = [Print sessionID (Text (''Opening active data connection to '' @ connectTo)),
                 CallResolveTCPAddr connectTo]
      in case ResolveTCPAddr nw connectTo of
           Inl e \<Rightarrow> (fx0 @ [Print sessionID (Err e)], Inl e)
         | Inr raddr \<Rightarrow>
             (case DialTCP nw raddr of
                Inl e \<Rightarrow> (fx0 @ [CallDialTCP raddr, Print sessionID (Err e)], Inl e)
              | Inr tcpConn \<Rightarrow>
                  (fx0 @ [CallDialTCP raddr],
                   Inr \<lparr>conn = tcpConn, host = remote, port = p\<rparr>)))"

definition ftpActiveSocket_Host :: "ftpActiveSocket \<Rightarrow> string" where
  "ftpActiveSocket_Host socket = ftpActiveSocket.host socket"

definition ftpActiveSocket_Port :: "ftpActiveSocket \<Rightarrow> int" where
  "ftpActiveSocket_Port socket = ftpActiveSocket.port socket"

text \<open>
  \<^verbatim>\<open>Read\<close>, \<^verbatim>\<open>Write\<close> and \<^verbatim>\<open>Close\<close> hand the call to the connection; the second
  argument is what the connection returns. The socket is not changed.
\<close>

definition ftpActiveSocket_Read ::
  "ftpActiveSocket \<Rightarrow> nat \<times> error option \<Rightarrow> ftpActiveSocket \<times> effect list \<times> nat \<times> error option" where
  "ftpActiveSocket_Read socket r = (socket, [ConnRead (TCPConn (ftpActiveSocket.conn socket))], r)"

definition ftpActiveSocket_Write ::
  "ftpActiveSocket \<Rightarrow> nat \<times> error option \<Rightarrow> ftpActiveSocket \<times> effect list \<times> nat \<times> error option" where
  "ftpActiveSocket_Write socket r = (socket, [ConnWrite (TCPConn (ftpActiveSocket.conn socket))], r)"

definition ftpActiveSocket_Close ::
  "ftpActiveSocket \<Rightarrow> error option \<Rightarrow> ftpActiveSocket \<times> effect list \<times> error option" where
  "ftpActiveSocket_Close socket r = (socket, [ConnClose (TCPConn (ftpActiveSocket.conn socket))], r)"

text \<open>A call on an active socket, and a sequence of calls.\<close>

datatype active_call =
    ActiveRead "nat \<times> error option"
  | ActiveWrite "nat \<times> error option"
  | ActiveClose "error option"

fun apply_active_call :: "active_call \<Rightarrow> ftpActiveSocket \<Rightarrow> ftpActiveSocket" where
  "apply_active_call (ActiveRead r) socket = fst (ftpActiveSocket_Read socket r)"
| "apply_active_call (ActiveWrite r) socket = fst (ftpActiveSocket_Write socket r)"
| "apply_active_call (ActiveClose r) socket = fst (ftpActiveSocket_Close socket r)"

fun active_calls :: "active_call list \<Rightarrow> ftpActiveSocket \<Rightarrow> ftpActiveSocket" where
  "active_calls [] socket = socket"
| "active_calls (c # cs) socket = active_calls cs (apply_active_call c socket)"

subsection \<open>The passive socket\<close>

text \<open>
  \<^verbatim>\<open>ftpPassiveSocket\<close>. \<open>lock\<close> is the \<^verbatim>\<open>sync.Mutex\<close>: true while it is held. The
  channels \<^verbatim>\<open>ingress\<close> and \<^verbatim>\<open>egress\<close> are made by the constructor and never used; the
  field \<^verbatim>\<open>logger\<close> is the diagnostics sink, kept as the \<open>Print\<close> effects.
\<close>

record ftpPassiveSocket =
  conn :: "conn option"
  port :: int
  host :: string
  err :: "error option"
  tlsConfing :: "tls_config option"
  lock :: bool

text \<open>
  The goroutine that \<^verbatim>\<open>GoListenAndServe\<close> starts, with the listener its closure holds:
  created by the \<^verbatim>\<open>go\<close> statement and not yet run; holding the lock and blocked in
  \<^verbatim>\<open>listener.Accept()\<close>; returned.
\<close>

datatype task = Spawned listener | Accepting listener | Finished

text \<open>
  \<^verbatim>\<open>GoListenAndServe(sessionID)\<close>: the effects in order, and the error returned or the
  socket with its port set and the listener handed to the goroutine. The error paths
  return before the socket is written, so they return no socket. \<^verbatim>\<open>strings.Split\<close>
  never returns an empty slice (lemma \<open>Split_not_Nil\<close>), so \<^verbatim>\<open>parts[len(parts)-1]\<close>
  is the last piece.
\<close>

definition GoListenAndServe ::
  "net \<Rightarrow> string \<Rightarrow> ftpPassiveSocket \<Rightarrow> effect list \<times> (error + ftpPassiveSocket \<times> listener)" where
  "GoListenAndServe nw sessionID socket =
     (let a = JoinHostPort [] (Itoa (port socket));
          fx0 = [CallResolveTCPAddr a]
      in case ResolveTCPAddr nw a of
           Inl e \<Rightarrow> (fx0 @ [Print sessionID (Err e)], Inl e)
         | Inr laddr \<Rightarrow>
             (let fx1 = fx0 @ [CallListenTCP laddr]
              in case ListenTCP nw laddr of
                   Inl e \<Rightarrow> (fx1 @ [Print sessionID (Err e)], Inl e)
                 | Inr bound \<Rightarrow>
                     (let listener = TCPListener bound;
                          add = Addr listener;
                          parts = Split (TCPAddr_String add) CHR '':''
                      in case Atoi (last parts) of
                           Inl e \<Rightarrow> (fx1 @ [Print sessionID (Err e)], Inl e)
                         | Inr p \<Rightarrow>
                             (let socket1 = socket\<lparr>port := p\<rparr>;
                                  listener1 =
                                    (case tlsConfing socket1 of
                                       None \<Rightarrow> listener
                                     | Some cfg \<Rightarrow> TLSListener listener cfg)
                              in (fx1 @ [GoAccept listener1], Inr (socket1, listener1))))))"

text \<open>
  The passive socket with its goroutine and the effects so far: the state that the calls
  on the socket and the steps of the goroutine share.
\<close>

record passive_world =
  sock :: ftpPassiveSocket
  task :: task
  trace :: "effect list"

text \<open>
  \<^verbatim>\<open>newPassiveSocket(host, port, logger, sessionID, tlsConfing)\<close>. The source never
  stores the parameter \<^verbatim>\<open>tlsConfing\<close> in the socket: the field keeps the nil of
  \<^verbatim>\<open>new(ftpPassiveSocket)\<close>.
\<close>

definition newPassiveSocket ::
  "net \<Rightarrow> string \<Rightarrow> int \<Rightarrow> string \<Rightarrow> tls_config option \<Rightarrow> effect list \<times> (error + passive_world)" where
  "newPassiveSocket nw h p sessionID tlsc =
     (let socket = \<lparr>conn = None, port = p, host = h, err = None, tlsConfing = None,
                     lock = False\<rparr>
      in case GoListenAndServe nw sessionID socket of
           (fx, Inl e) \<Rightarrow> (fx, Inl e)
         | (fx, Inr (socket1, l)) \<Rightarrow>
             (fx, Inr \<lparr>sock = socket1, task = Spawned l, trace = fx\<rparr>))"

definition ftpPassiveSocket_Host :: "ftpPassiveSocket \<Rightarrow> string" where
  "ftpPassiveSocket_Host socket = host socket"

definition ftpPassiveSocket_Port :: "ftpPassiveSocket \<Rightarrow> int" where
  "ftpPassiveSocket_Port socket = port socket"

text \<open>
  \<^verbatim>\<open>waitForOpenSocket\<close>: \<open>None\<close> while the lock is held by someone else (the caller
  blocks in \<^verbatim>\<open>Lock\<close>); otherwise the lock is taken, the fields are read and the
  deferred \<^verbatim>\<open>Unlock\<close> runs. Nothing between blocks, so this is one step.
\<close>

definition waitForOpenSocket :: "ftpPassiveSocket \<Rightarrow> (ftpPassiveSocket \<times> error option) option" where
  "waitForOpenSocket socket =
     (if lock socket then None
      else (let s1 = socket\<lparr>lock := True\<rparr>;
                r = (if conn s1 \<noteq> None then None else err s1)
            in Some (s1\<lparr>lock := False\<rparr>, r)))"

text \<open>
  The result of a call. \<open>Panic\<close> is the run-time panic of a method call on the nil
  interface value in \<^verbatim>\<open>socket.conn.Read(p)\<close> and \<^verbatim>\<open>socket.conn.Write(p)\<close>.
\<close>

datatype result =
    NoResult
  | IOResult nat "error option"
  | CloseResult "error option"
  | HostResult string
  | PortResult int
  | Panic

text \<open>
  \<^verbatim>\<open>Read\<close> and \<^verbatim>\<open>Write\<close>: \<open>None\<close> while the caller is blocked. The second argument
  is what the connection returns when the call reaches it. A call is one step of the
  schedule: the gate and the call on the connection that follows it are not interleaved
  with the goroutine.
\<close>

definition ftpPassiveSocket_Read ::
  "ftpPassiveSocket \<Rightarrow> nat \<times> error option \<Rightarrow> (ftpPassiveSocket \<times> effect list \<times> result) option" where
  "ftpPassiveSocket_Read socket r =
     (case waitForOpenSocket socket of
        None \<Rightarrow> None
      | Some (s1, Some e) \<Rightarrow> Some (s1, [], IOResult 0 (Some e))
      | Some (s1, None) \<Rightarrow>
          (case conn s1 of
             None \<Rightarrow> Some (s1, [], Panic)
           | Some c \<Rightarrow> Some (s1, [ConnRead c], IOResult (fst r) (snd r))))"

definition ftpPassiveSocket_Write ::
  "ftpPassiveSocket \<Rightarrow> nat \<times> error option \<Rightarrow> (ftpPassiveSocket \<times> effect list \<times> result) option" where
  "ftpPassiveSocket_Write socket r =
     (case waitForOpenSocket socket of
        None \<Rightarrow> None
      | Some (s1, Some e) \<Rightarrow> Some (s1, [], IOResult 0 (Some e))
      | Some (s1, None) \<Rightarrow>
          (case conn s1 of
             None \<Rightarrow> Some (s1, [], Panic)
           | Some c \<Rightarrow> Some (s1, [ConnWrite c], IOResult (fst r) (snd r))))"

text \<open>
  \<^verbatim>\<open>Close\<close> reads \<^verbatim>\<open>socket.conn\<close> without the lock; the second argument is what the
  connection's \<^verbatim>\<open>Close\<close> returns when there is a connection.
\<close>

definition ftpPassiveSocket_Close ::
  "ftpPassiveSocket \<Rightarrow> error option \<Rightarrow> ftpPassiveSocket \<times> effect list \<times> error option" where
  "ftpPassiveSocket_Close socket r =
     (case conn socket of
        Some c \<Rightarrow> (socket, [ConnClose c], r)
      | None \<Rightarrow> (socket, [], None))"

text \<open>
  The goroutine, in its two steps: \<^verbatim>\<open>socket.lock.Lock()\<close>, which waits for a free
  lock; then \<^verbatim>\<open>Accept\<close> returns, the outcome is written to the socket and the deferred
  \<^verbatim>\<open>Unlock\<close> runs. A step that cannot be taken is \<open>None\<close>.
\<close>

definition goroutine_lock :: "passive_world \<Rightarrow> passive_world option" where
  "goroutine_lock w =
     (case task w of
        Spawned l \<Rightarrow>
          (if lock (sock w) then None
           else Some (w\<lparr>sock := (sock w)\<lparr>lock := True\<rparr>, task := Accepting l\<rparr>))
      | Accepting l \<Rightarrow> None
      | Finished \<Rightarrow> None)"

definition goroutine_accept :: "error + fd \<Rightarrow> passive_world \<Rightarrow> passive_world option" where
  "goroutine_accept r w =
     (case task w of
        Spawned l \<Rightarrow> None
      | Accepting l \<Rightarrow>
          (let s1 = (case Accept l r of
                       Inl e \<Rightarrow> (sock w)\<lparr>err := Some e\<rparr>
                     | Inr c \<Rightarrow> (sock w)\<lparr>err := None, conn := Some c\<rparr>)
           in Some (w\<lparr>sock := s1\<lparr>lock := False\<rparr>, task := Finished\<rparr>))
      | Finished \<Rightarrow> None)"

text \<open>
  What can happen to a passive socket after its construction: a step of the goroutine
  (the second one with what the operating system's accept returned), or a call of a
  method by the owner of the socket (with what the connection returns).
\<close>

datatype event =
    GoroutineLock
  | GoroutineAccept "error + fd"
  | CallRead "nat \<times> error option"
  | CallWrite "nat \<times> error option"
  | CallClose "error option"
  | CallHost
  | CallPort

fun step :: "event \<Rightarrow> passive_world \<Rightarrow> (passive_world \<times> result) option" where
  "step GoroutineLock w =
     (case goroutine_lock w of None \<Rightarrow> None | Some w1 \<Rightarrow> Some (w1, NoResult))"
| "step (GoroutineAccept r) w =
     (case goroutine_accept r w of None \<Rightarrow> None | Some w1 \<Rightarrow> Some (w1, NoResult))"
| "step (CallRead r) w =
     (case ftpPassiveSocket_Read (sock w) r of
        None \<Rightarrow> None
      | Some (s1, fx, res) \<Rightarrow> Some (w\<lparr>sock := s1, trace := trace w @ fx\<rparr>, res))"
| "step (CallWrite r) w =
     (case ftpPassiveSocket_Write (sock w) r of
        None \<Rightarrow> None
      | Some (s1, fx, res) \<Rightarrow> Some (w\<lparr>sock := s1, trace := trace w @ fx\<rparr>, res))"
| "step (CallClose r) w =
     (case ftpPassiveSocket_Close (sock w) r of
        (s1, fx, res) \<Rightarrow> Some (w\<lparr>sock := s1, trace := trace w @ fx\<rparr>, CloseResult res))"
| "step CallHost w = Some (w, HostResult (ftpPassiveSocket_Host (sock w)))"
| "step CallPort w = Some (w, PortResult (ftpPassiveSocket_Port (sock w)))"

text \<open>A schedule: the events in the order they happen, with the results of the calls.\<close>

fun run :: "event list \<Rightarrow> passive_world \<Rightarrow> (passive_world \<times> result list) option" where
  "run [] w = Some (w, [])"
| "run (ev # evs) w =
     (case step ev w of
        None \<Rightarrow> None
      | Some (w1, r) \<Rightarrow>
          (case run evs w1 of None \<Rightarrow> None | Some (w2, rs) \<Rightarrow> Some (w2, r # rs)))"

text \<open>The diagnostic lines among the effects: session identifier and message.\<close>

fun diagnostics :: "effect list \<Rightarrow> (string \<times> message) list" where
  "diagnostics [] = []"
| "diagnostics (Print sid m # fx) = (sid, m) # diagnostics fx"
| "diagnostics (x # fx) = diagnostics fx"

text \<open>Whether an event is the return of the goroutine's accept.\<close>

fun is_accept :: "event \<Rightarrow> bool" where
  "is_accept (GoroutineAccept r) = True"
| "is_accept ev = False"

text \<open>The goroutine's listener is not a TLS listener.\<close>

fun is_tls_listener :: "listener \<Rightarrow> bool" where
  "is_tls_listener (TCPListener a) = False"
| "is_tls_listener (TLSListener l cfg) = True"

text \<open>
  The state of the gate: before the goroutine has returned, the socket has neither a
  connection nor an error, and the lock is held exactly while the goroutine waits in
  \<^verbatim>\<open>Accept\<close>; after it has returned, the lock is free and the socket has a connection
  or an error, not both.
\<close>

definition gate_inv :: "passive_world \<Rightarrow> bool" where
  "gate_inv w =
     (case task w of
        Spawned l \<Rightarrow> conn (sock w) = None \<and> err (sock w) = None \<and> \<not> lock (sock w)
      | Accepting l \<Rightarrow> conn (sock w) = None \<and> err (sock w) = None \<and> lock (sock w)
      | Finished \<Rightarrow>
          \<not> lock (sock w) \<and> ((conn (sock w) = None) \<noteq> (err (sock w) = None)))"

text \<open>No TLS anywhere: the goroutine's listener is plain, and so is the connection.\<close>

definition plaintext_inv :: "passive_world \<Rightarrow> bool" where
  "plaintext_inv w =
     ((case task w of
         Spawned l \<Rightarrow> \<not> is_tls_listener l
       | Accepting l \<Rightarrow> \<not> is_tls_listener l
       | Finished \<Rightarrow> True) \<and>
      (case conn (sock w) of None \<Rightarrow> True | Some c \<Rightarrow> \<not> is_tls c))"

text \<open>How many accepts the goroutine can still complete.\<close>

definition accepts_left :: "passive_world \<Rightarrow> nat" where
  "accepts_left w = (case task w of Spawned l \<Rightarrow> 1 | Accepting l \<Rightarrow> 1 | Finished \<Rightarrow> 0)"

subsection \<open>Concrete networks\<close>

text \<open>
  A network on which every call succeeds and the listener is bound to port 40123 of the
  IPv6 wildcard address; one whose resolver fails; one that resolves and then refuses
  to dial and to bind.
\<close>

definition bound_addr :: TCPAddr where
  "bound_addr = \<lparr>IP = ''::'', Port = 40123, Zone = []\<rparr>"

definition wildcard_addr :: TCPAddr where
  "wildcard_addr = \<lparr>IP = [], Port = 0, Zone = []\<rparr>"

definition good_net :: net where
  "good_net = \<lparr>ResolveTCPAddr = (\<lambda>s. Inr wildcard_addr), DialTCP = (\<lambda>a. Inr 7),
                ListenTCP = (\<lambda>a. Inr bound_addr)\<rparr>"

definition unresolving_net :: net where
  "unresolving_net = \<lparr>ResolveTCPAddr = (\<lambda>s. Inl (NetError ''no such host'')),
                       DialTCP = (\<lambda>a. Inr 7), ListenTCP = (\<lambda>a. Inr bound_addr)\<rparr>"

definition refusing_net :: net where
  "refusing_net = \<lparr>ResolveTCPAddr = (\<lambda>s. Inr wildcard_addr),
                    DialTCP = (\<lambda>a. Inl (NetError ''connection refused'')),
                    ListenTCP = (\<lambda>a. Inl (NetError ''address already in use''))\<rparr>"

text \<open>
  The passive socket that \<open>good_net\<close> gives for host 192.0.2.1 and requested port 0,
  right after its construction.
\<close>

definition fresh_world :: passive_world where
  "fresh_world =
     \<lparr>sock = \<lparr>conn = None, port = 40123, host = ''192.0.2.1'', err = None,
               tlsConfing = None, lock = False\<rparr>,
      task = Spawned (TCPListener bound_addr),
      trace = [CallResolveTCPAddr '':0'', CallListenTCP wildcard_addr,
               GoAccept (TCPListener bound_addr)]\<rparr>"

text \<open>
  The same socket once the goroutine holds the lock and waits in \<^verbatim>\<open>Accept\<close>; once the
  accept has failed because the listener was closed; once a client has connected.
\<close>

definition accepting_world :: passive_world where
  "accepting_world =
     \<lparr>sock = \<lparr>conn = None, port = 40123, host = ''192.0.2.1'', err = None,
               tlsConfing = None, lock = True\<rparr>,
      task = Accepting (TCPListener bound_addr),
      trace = [CallResolveTCPAddr '':0'', CallListenTCP wildcard_addr,
               GoAccept (TCPListener bound_addr)]\<rparr>"

definition failed_world :: passive_world where
  "failed_world =
     \<lparr>sock = \<lparr>conn = None, port = 40123, host = ''192.0.2.1'',
               err = Some (NetError ''use of closed network connection''),
               tlsConfing = None, lock = False\<rparr>,
      task = Finished,
      trace = [CallResolveTCPAddr '':0'', CallListenTCP wildcard_addr,
               GoAccept (TCPListener bound_addr)]\<rparr>"

definition connected_world :: passive_world where
  "connected_world =
     \<lparr>sock = \<lparr>conn = Some (TCPConn 5), port = 40123, host = ''192.0.2.1'', err = None,
               tlsConfing = None, lock = False\<rparr>,
      task = Finished,
      trace = [CallResolveTCPAddr '':0'', CallListenTCP wildcard_addr,
               GoAccept (TCPListener bound_addr)]\<rparr>"

section \<open>Properties\<close>

subsection \<open>Decimal strings and splitting\<close>

lemma FormatUint_small: "n < 10 \<Longrightarrow> FormatUint n = [digit_char n]"
  by (simp add: FormatUint.simps)

lemma FormatUint_large:
  "\<not> n < 10 \<Longrightarrow> FormatUint n = FormatUint (n div 10) @ [digit_char (n mod 10)]"
  by (subst FormatUint.simps) simp

lemma lt10_cases:
  "d < 10 \<Longrightarrow> d = 0 \<or> d = 1 \<or> d = 2 \<or> d = 3 \<or> d = 4 \<or> d = 5 \<or> d = 6 \<or> d = 7 \<or> d = 8 \<or> d = (9::nat)"
  by arith

lemma digit_val_digit_char: "d < 10 \<Longrightarrow> digit_val (digit_char d) = Some d"
  using lt10_cases [of d] by (auto simp: digit_val_def digit_char_def)

lemma digit_char_not_special:
  "d < 10 \<Longrightarrow> digit_char d \<noteq> CHR '':'' \<and> digit_char d \<noteq> CHR ''-'' \<and> digit_char d \<noteq> CHR ''+''"
  using lt10_cases [of d] by (auto simp: digit_char_def)

lemma parse_digits_append:
  "parse_digits n (xs @ ys) =
     (case parse_digits n xs of None \<Rightarrow> None | Some m \<Rightarrow> parse_digits m ys)"
  by (induction xs arbitrary: n) (auto split: option.splits)

lemma parse_digits_FormatUint: "parse_digits 0 (FormatUint n) = Some n"
proof (induction n rule: FormatUint.induct)
  case (1 n)
  show ?case
  proof (cases "n < 10")
    case True
    then show ?thesis by (simp add: FormatUint_small digit_val_digit_char)
  next
    case False
    have d: "digit_val (digit_char (n mod 10)) = Some (n mod 10)"
      by (rule digit_val_digit_char) simp
    from False 1 have "parse_digits 0 (FormatUint (n div 10)) = Some (n div 10)" by simp
    with False d show ?thesis
      by (simp add: FormatUint_large parse_digits_append)
  qed
qed

lemma FormatUint_chars: "c \<in> set (FormatUint n) \<Longrightarrow> \<exists>d<10. c = digit_char d"
proof (induction n rule: FormatUint.induct)
  case (1 n)
  show ?case
  proof (cases "n < 10")
    case True
    with 1(2) show ?thesis by (auto simp: FormatUint_small)
  next
    case False
    with 1(2) have "c \<in> set (FormatUint (n div 10)) \<or> c = digit_char (n mod 10)"
      by (auto simp add: FormatUint_large)
    then show ?thesis
    proof
      assume "c \<in> set (FormatUint (n div 10))"
      with False 1(1) show ?thesis by simp
    next
      assume "c = digit_char (n mod 10)"
      moreover have "n mod 10 < 10" by simp
      ultimately show ?thesis by blast
    qed
  qed
qed

lemma FormatUint_not_Nil: "FormatUint n \<noteq> []"
  by (cases "n < 10") (simp_all add: FormatUint_small FormatUint_large)

lemma colon_notin_FormatUint: "CHR '':'' \<notin> set (FormatUint n)"
proof
  assume "CHR '':'' \<in> set (FormatUint n)"
  then obtain d where "d < 10" "CHR '':'' = digit_char d"
    using FormatUint_chars by blast
  then show False using digit_char_not_special [of d] by simp
qed

lemma hd_FormatUint_not_sign: "hd (FormatUint n) \<noteq> CHR ''-'' \<and> hd (FormatUint n) \<noteq> CHR ''+''"
proof -
  have "hd (FormatUint n) \<in> set (FormatUint n)" using FormatUint_not_Nil by simp
  then obtain d where "d < 10" "hd (FormatUint n) = digit_char d"
    using FormatUint_chars by blast
  then show ?thesis using digit_char_not_special [of d] by simp
qed

lemma colon_notin_Itoa: "CHR '':'' \<notin> set (Itoa i)"
  by (simp add: Itoa_def colon_notin_FormatUint)

lemma Atoi_Itoa: "- (2 ^ 63) \<le> i \<Longrightarrow> i \<le> 2 ^ 63 - 1 \<Longrightarrow> Atoi (Itoa i) = Inr i"
proof (cases "i < 0")
  case True
  assume "- (2 ^ 63) \<le> i" "i \<le> 2 ^ 63 - 1"
  with True show ?thesis
    by (simp add: Atoi_def Itoa_def FormatUint_not_Nil parse_digits_FormatUint)
next
  case False
  assume b: "- (2 ^ 63) \<le> i" "i \<le> 2 ^ 63 - 1"
  obtain c cs where f: "FormatUint (nat i) = c # cs"
    using FormatUint_not_Nil by (cases "FormatUint (nat i)") auto
  have "c \<noteq> CHR ''-'' \<and> c \<noteq> CHR ''+''" using hd_FormatUint_not_sign [of "nat i"] f by simp
  moreover have "parse_digits 0 (c # cs) = Some (nat i)"
    using parse_digits_FormatUint [of "nat i"] f by simp
  ultimately show ?thesis using False b f
    by (simp add: Atoi_def Itoa_def del: parse_digits.simps)
qed

lemma Split_not_Nil: "Split s sep \<noteq> []"
  by (induction s) (auto split: list.splits)

lemma Split_no_sep: "sep \<notin> set s \<Longrightarrow> Split s sep = [s]"
  by (induction s) auto

lemma length_Split_sep: "2 \<le> length (Split (xs @ sep # ys) sep)"
proof (induction xs)
  case Nil
  then show ?case using Split_not_Nil [of ys sep] by (cases "Split ys sep") auto
next
  case (Cons x xs)
  then show ?case by (auto split: list.splits)
qed

lemma last_Split_sep: "last (Split (xs @ sep # ys) sep) = last (Split ys sep)"
proof (induction xs)
  case Nil
  then show ?case by (simp add: Split_not_Nil)
next
  case (Cons x xs)
  show ?case
  proof (cases "x = sep")
    case True
    with Cons show ?thesis by (simp add: Split_not_Nil)
  next
    case False
    obtain p q ps where s: "Split (xs @ sep # ys) sep = p # q # ps"
      using length_Split_sep [of xs sep ys]
      by (cases "Split (xs @ sep # ys) sep" rule: remdups_adj.cases) auto
    with False Cons show ?thesis by simp
  qed
qed

lemma last_Split_JoinHostPort:
  "CHR '':'' \<notin> set p \<Longrightarrow> last (Split (JoinHostPort h p) CHR '':'') = p"
proof -
  assume p: "CHR '':'' \<notin> set p"
  have "last (Split (xs @ CHR '':'' # p) CHR '':'') = p" for xs
    using p by (simp add: last_Split_sep Split_no_sep)
  from this [of h] this [of "''['' @ h @ '']''"] show ?thesis
    by (simp add: JoinHostPort_def)
qed

lemma last_Split_TCPAddr_String:
  "last (Split (TCPAddr_String a) CHR '':'') = Itoa (Port a)"
  by (simp add: TCPAddr_String_def last_Split_JoinHostPort colon_notin_Itoa)

lemma JoinHostPort_empty: "JoinHostPort [] p = CHR '':'' # p"
  by (simp add: JoinHostPort_def)

subsection \<open>The passive socket and its goroutine\<close>

lemma newPassiveSocket_Inr:
  assumes "snd (newPassiveSocket nw h p sid c) = Inr w"
  shows "\<exists>laddr b q.
           ResolveTCPAddr nw (JoinHostPort [] (Itoa p)) = Inr laddr \<and>
           ListenTCP nw laddr = Inr b \<and>
           Atoi (Itoa (Port b)) = Inr q \<and>
           w = \<lparr>sock = \<lparr>conn = None, port = q, host = h, err = None,
                         tlsConfing = None, lock = False\<rparr>,
                task = Spawned (TCPListener b),
                trace = [CallResolveTCPAddr (JoinHostPort [] (Itoa p)), CallListenTCP laddr,
                         GoAccept (TCPListener b)]\<rparr> \<and>
           fst (newPassiveSocket nw h p sid c) = trace w"
  using assms
  by (auto simp: newPassiveSocket_def GoListenAndServe_def Let_def last_Split_TCPAddr_String
           split: sum.splits)

lemma gate_inv_new: "snd (newPassiveSocket nw h p sid c) = Inr w \<Longrightarrow> gate_inv w"
  by (drule newPassiveSocket_Inr) (auto simp: gate_inv_def)

lemma plaintext_inv_new: "snd (newPassiveSocket nw h p sid c) = Inr w \<Longrightarrow> plaintext_inv w"
  by (drule newPassiveSocket_Inr) (auto simp: plaintext_inv_def)

lemma unlock_idem: "\<not> lock s \<Longrightarrow> s\<lparr>lock := False\<rparr> = s"
  by (cases s) simp

lemma waitForOpenSocket_free:
  "\<not> lock s \<Longrightarrow> waitForOpenSocket s = Some (s, if conn s \<noteq> None then None else err s)"
  by (simp add: waitForOpenSocket_def Let_def unlock_idem)

lemma waitForOpenSocket_held: "lock s \<Longrightarrow> waitForOpenSocket s = None"
  by (simp add: waitForOpenSocket_def)

lemma step_gate_inv: "gate_inv w \<Longrightarrow> step ev w = Some (w1, r) \<Longrightarrow> gate_inv w1"
  by (cases ev)
     (auto simp: gate_inv_def goroutine_lock_def goroutine_accept_def
                 ftpPassiveSocket_Read_def ftpPassiveSocket_Write_def ftpPassiveSocket_Close_def
                 waitForOpenSocket_def Let_def
           split: task.splits option.splits sum.splits if_splits)

lemma run_Cons_Some:
  "run (ev # evs) w = Some (w2, rs) \<Longrightarrow>
     \<exists>w1 r rs'. step ev w = Some (w1, r) \<and> run evs w1 = Some (w2, rs') \<and> rs = r # rs'"
  by (auto split: option.splits)

lemma run_invariant:
  assumes stp: "\<And>ev w w1 r. P w \<Longrightarrow> step ev w = Some (w1, r) \<Longrightarrow> P w1"
  shows "P w \<Longrightarrow> run evs w = Some (w2, rs) \<Longrightarrow> P w2"
proof (induction evs arbitrary: w rs)
  case Nil
  then show ?case by simp
next
  case (Cons ev evs)
  from run_Cons_Some [OF Cons.prems(2)] obtain w1 r rs'
    where s: "step ev w = Some (w1, r)" and r: "run evs w1 = Some (w2, rs')" by blast
  from stp [OF Cons.prems(1) s] have "P w1" .
  from Cons.IH [OF this r] show ?case .
qed

lemma run_gate_inv: "gate_inv w \<Longrightarrow> run evs w = Some (w2, rs) \<Longrightarrow> gate_inv w2"
  by (rule run_invariant [where P = gate_inv]) (rule step_gate_inv)

lemma Accept_plain: "\<not> is_tls_listener l \<Longrightarrow> Accept l r = Inr c \<Longrightarrow> \<not> is_tls c"
  by (cases l) (auto split: sum.splits)

lemma step_plaintext_inv:
  "plaintext_inv w \<Longrightarrow> step ev w = Some (w1, r) \<Longrightarrow> plaintext_inv w1"
  by (cases ev)
     (auto simp: plaintext_inv_def goroutine_lock_def goroutine_accept_def
                 ftpPassiveSocket_Read_def ftpPassiveSocket_Write_def ftpPassiveSocket_Close_def
                 waitForOpenSocket_def Let_def
           split: task.splits option.splits sum.splits if_splits
           dest: Accept_plain)

lemma run_plaintext_inv:
  "plaintext_inv w \<Longrightarrow> run evs w = Some (w2, rs) \<Longrightarrow> plaintext_inv w2"
  by (rule run_invariant [where P = plaintext_inv]) (rule step_plaintext_inv)

lemma step_host_port:
  "step ev w = Some (w1, r) \<Longrightarrow>
     host (sock w1) = host (sock w) \<and> port (sock w1) = port (sock w) \<and>
     tlsConfing (sock w1) = tlsConfing (sock w)"
  by (cases ev)
     (auto simp: goroutine_lock_def goroutine_accept_def
                 ftpPassiveSocket_Read_def ftpPassiveSocket_Write_def ftpPassiveSocket_Close_def
                 waitForOpenSocket_def Let_def
           split: task.splits option.splits sum.splits if_splits)

lemma run_host_port:
  "run evs w = Some (w2, rs) \<Longrightarrow>
     host (sock w2) = host (sock w) \<and> port (sock w2) = port (sock w)"
proof -
  assume r: "run evs w = Some (w2, rs)"
  let ?P = "\<lambda>v. host (sock v) = host (sock w) \<and> port (sock v) = port (sock w)"
  have "?P w2"
  proof (rule run_invariant [where P = ?P, OF _ _ r])
    show "?P w" by simp
  next
    fix ev v v1 r'
    assume "?P v" "step ev v = Some (v1, r')"
    then show "?P v1" using step_host_port [of ev v v1 r'] by simp
  qed
  then show ?thesis .
qed

lemma step_keeps_outcome:
  "gate_inv w \<Longrightarrow> step ev w = Some (w1, r) \<Longrightarrow>
     (conn (sock w) = Some c \<longrightarrow> conn (sock w1) = Some c) \<and>
     (err (sock w) = Some e \<longrightarrow> err (sock w1) = Some e)"
  by (cases ev)
     (auto simp: gate_inv_def goroutine_lock_def goroutine_accept_def
                 ftpPassiveSocket_Read_def ftpPassiveSocket_Write_def ftpPassiveSocket_Close_def
                 waitForOpenSocket_def Let_def
           split: task.splits option.splits sum.splits if_splits)

lemma run_keeps_outcome:
  "gate_inv w \<Longrightarrow> run evs w = Some (w2, rs) \<Longrightarrow>
     (conn (sock w) = Some c \<longrightarrow> conn (sock w2) = Some c) \<and>
     (err (sock w) = Some e \<longrightarrow> err (sock w2) = Some e)"
proof -
  assume g: "gate_inv w" and r: "run evs w = Some (w2, rs)"
  let ?P = "\<lambda>v. gate_inv v \<and> (conn (sock w) = Some c \<longrightarrow> conn (sock v) = Some c) \<and>
                 (err (sock w) = Some e \<longrightarrow> err (sock v) = Some e)"
  have "?P w2"
  proof (rule run_invariant [where P = ?P, OF _ _ r])
    show "?P w" using g by simp
  next
    fix ev v v1 r'
    assume "?P v" "step ev v = Some (v1, r')"
    then show "?P v1"
      using step_keeps_outcome [of v ev v1 r' c e] step_gate_inv [of v ev v1 r'] by simp
  qed
  then show ?thesis by simp
qed

lemma step_accepts_left:
  "step ev w = Some (w1, r) \<Longrightarrow>
     (if is_accept ev then 1 else 0) + accepts_left w1 = accepts_left w"
  by (cases ev)
     (auto simp: accepts_left_def goroutine_lock_def goroutine_accept_def
                 ftpPassiveSocket_Read_def ftpPassiveSocket_Write_def ftpPassiveSocket_Close_def
                 Let_def
           split: task.splits option.splits sum.splits if_splits)

lemma run_accepts_left:
  "run evs w = Some (w2, rs) \<Longrightarrow>
     length (filter is_accept evs) + accepts_left w2 = accepts_left w"
proof (induction evs arbitrary: w rs)
  case Nil
  then show ?case by simp
next
  case (Cons ev evs)
  from run_Cons_Some [OF Cons.prems] obtain w1 r rs'
    where s: "step ev w = Some (w1, r)" and r: "run evs w1 = Some (w2, rs')" by blast
  from Cons.IH [OF r] step_accepts_left [OF s] show ?case by (simp split: if_splits)
qed

subsection \<open>The concrete networks evaluated\<close>

lemma Itoa_0: "Itoa 0 = ''0''"
  by (simp add: Itoa_def FormatUint_small digit_char_def)

lemma FormatUint_40123: "FormatUint 40123 = ''40123''"
  by (simp add: FormatUint_small FormatUint_large digit_char_def)

lemma Atoi_40123: "Atoi ''40123'' = Inr 40123"
  by (simp add: Atoi_def digit_val_def)

lemma Split_bound_addr:
  "Split (TCPAddr_String bound_addr) CHR '':'' = [''['', [], '']'', ''40123'']"
  by (simp add: TCPAddr_String_def bound_addr_def JoinHostPort_def Itoa_def FormatUint_40123)

lemma fresh_world_new:
  "newPassiveSocket good_net ''192.0.2.1'' 0 sid c = (trace fresh_world, Inr fresh_world)"
  by (simp add: newPassiveSocket_def GoListenAndServe_def Let_def good_net_def Itoa_0
        JoinHostPort_empty Split_bound_addr Atoi_40123 fresh_world_def)

subsection \<open>The readiness gate\<close>

text \<open>
  Claim C1 says that a read or write that gets past \<^verbatim>\<open>waitForOpenSocket\<close> always finds
  an accepted connection. The goroutine takes the lock only when it first runs, not
  before the \<^verbatim>\<open>go\<close> statement, so in the state in which \<^verbatim>\<open>newPassiveSocket\<close> returns
  the lock is free: there \<^verbatim>\<open>waitForOpenSocket\<close> does not wait, it returns nil while the
  socket has neither a connection nor an error, and \<^verbatim>\<open>Read\<close> and \<^verbatim>\<open>Write\<close> go on to
  call a method of the nil connection, which panics. This holds for every passive
  socket, whatever the network, host, port and TLS configuration.
\<close>

theorem read_before_goroutine_lock_passes_gate:
  assumes "snd (newPassiveSocket nw h p sid c) = Inr w"
  shows "waitForOpenSocket (sock w) = Some (sock w, None) \<and>
         conn (sock w) = None \<and> err (sock w) = None \<and>
         step (CallRead r) w = Some (w, Panic) \<and>
         step (CallWrite r) w = Some (w, Panic)"
proof -
  from gate_inv_new [OF assms] newPassiveSocket_Inr [OF assms]
  have g: "conn (sock w) = None" "err (sock w) = None" "\<not> lock (sock w)"
    by (auto simp: gate_inv_def)
  then have wf: "waitForOpenSocket (sock w) = Some (sock w, None)"
    by (simp add: waitForOpenSocket_free)
  with g show ?thesis
    by (simp add: ftpPassiveSocket_Read_def ftpPassiveSocket_Write_def)
qed

theorem read_before_goroutine_lock_passes_gate_witness:
  "snd (newPassiveSocket good_net ''192.0.2.1'' 0 ''session-1'' None) = Inr fresh_world \<and>
   waitForOpenSocket (sock fresh_world) = Some (sock fresh_world, None) \<and>
   conn (sock fresh_world) = None \<and>
   step (CallRead (0, None)) fresh_world = Some (fresh_world, Panic)"
proof -
  have h: "snd (newPassiveSocket good_net ''192.0.2.1'' 0 ''session-1'' None) = Inr fresh_world"
    by (simp add: fresh_world_new)
  from read_before_goroutine_lock_passes_gate [OF h, of "(0, None)"] h show ?thesis by simp
qed

subsection \<open>The concrete schedules evaluated\<close>

lemma run_to_accepting: "run [GoroutineLock] fresh_world = Some (accepting_world, [NoResult])"
  by (simp add: fresh_world_def accepting_world_def goroutine_lock_def)

lemma step_to_failed:
  "step (GoroutineAccept (Inl (NetError ''use of closed network connection''))) accepting_world
     = Some (failed_world, NoResult)"
  by (simp add: accepting_world_def failed_world_def goroutine_accept_def)

lemma run_to_connected:
  "run [GoroutineLock, GoroutineAccept (Inr 5)] fresh_world
     = Some (connected_world, [NoResult, NoResult])"
  by (simp add: fresh_world_def connected_world_def goroutine_lock_def goroutine_accept_def)

lemma close_failed: "run [CallClose None] failed_world = Some (failed_world, [CloseResult None])"
  by (simp add: failed_world_def ftpPassiveSocket_Close_def)

lemma read_connected:
  "run [CallRead (3, None)] connected_world
     = Some (connected_world\<lparr>trace := trace connected_world @ [ConnRead (TCPConn 5)]\<rparr>,
             [IOResult 3 None])"
  by (simp add: connected_world_def ftpPassiveSocket_Read_def waitForOpenSocket_def)

subsection \<open>TLS\<close>

text \<open>
  Claim C2 says that a passive socket constructed with a TLS configuration wraps its
  listener, so that the accepted connection is a TLS connection. The constructor never
  stores its parameter \<^verbatim>\<open>tlsConfing\<close> in the socket, so \<^verbatim>\<open>GoListenAndServe\<close> always
  finds the field nil: whatever configuration is given, the field is nil after the
  construction, the goroutine holds the plain TCP listener, and whatever happens
  afterwards a recorded connection is never a TLS connection.
\<close>

theorem tls_config_is_dropped:
  assumes "snd (newPassiveSocket nw h p sid (Some cfg)) = Inr w"
  shows "tlsConfing (sock w) = None \<and>
         (\<exists>b. task w = Spawned (TCPListener b)) \<and>
         (\<forall>evs w2 rs c. run evs w = Some (w2, rs) \<longrightarrow> conn (sock w2) = Some c \<longrightarrow> \<not> is_tls c)"
proof -
  from newPassiveSocket_Inr [OF assms]
  have a: "tlsConfing (sock w) = None" "\<exists>b. task w = Spawned (TCPListener b)" by auto
  have "\<not> is_tls c" if r: "run evs w = Some (w2, rs)" and c: "conn (sock w2) = Some c"
    for evs w2 rs c
  proof -
    from run_plaintext_inv [OF plaintext_inv_new [OF assms] r] have "plaintext_inv w2" .
    with c show ?thesis by (simp add: plaintext_inv_def)
  qed
  with a show ?thesis by blast
qed

theorem tls_config_is_dropped_witness:
  "snd (newPassiveSocket good_net ''192.0.2.1'' 0 ''session-1'' (Some (TLSConfig 1)))
     = Inr fresh_world \<and>
   run [GoroutineLock, GoroutineAccept (Inr 5)] fresh_world
     = Some (connected_world, [NoResult, NoResult]) \<and>
   conn (sock connected_world) = Some (TCPConn 5) \<and>
   \<not> is_tls (TCPConn 5) \<and> tlsConfing (sock fresh_world) = None"
proof -
  have h: "snd (newPassiveSocket good_net ''192.0.2.1'' 0 ''session-1'' (Some (TLSConfig 1)))
             = Inr fresh_world"
    by (simp add: fresh_world_new)
  from tls_config_is_dropped [OF h] h run_to_connected show ?thesis
    by (simp add: connected_world_def)
qed

subsection \<open>A failed accept\<close>

lemma Accept_Inl: "Accept l (Inl e) = Inl e"
  by (induction l) simp_all

text \<open>
  Claim C3: when the accept of the goroutine fails with an error, the error is recorded,
  and in every later state of the socket, whatever calls were made in between, the error
  slot still holds that error, and \<^verbatim>\<open>Read\<close> and \<^verbatim>\<open>Write\<close> do not block, transfer 0
  bytes and return that error.
\<close>

theorem failed_accept_is_terminal:
  assumes new: "snd (newPassiveSocket nw h p sid c) = Inr w0"
    and before: "run evs w0 = Some (w1, rs1)"
    and fail: "step (GoroutineAccept (Inl e)) w1 = Some (w2, r)"
    and after: "run evs' w2 = Some (w3, rs3)"
  shows "err (sock w3) = Some e \<and> conn (sock w3) = None \<and>
         step (CallRead x) w3 = Some (w3, IOResult 0 (Some e)) \<and>
         step (CallWrite y) w3 = Some (w3, IOResult 0 (Some e))"
proof -
  have g1: "gate_inv w1" using run_gate_inv [OF gate_inv_new [OF new] before] .
  have g2: "gate_inv w2" using step_gate_inv [OF g1 fail] .
  have fin: "task w2 = Finished" and e2: "err (sock w2) = Some e"
    using fail by (auto simp: goroutine_accept_def Accept_Inl split: task.splits)
  have g3: "gate_inv w3" using run_gate_inv [OF g2 after] .
  have e3: "err (sock w3) = Some e" using run_keeps_outcome [OF g2 after] e2 by simp
  have "accepts_left w3 = 0" using run_accepts_left [OF after] fin
    by (simp add: accepts_left_def)
  then have "task w3 = Finished" by (simp add: accepts_left_def split: task.splits)
  with g3 e3 have c3: "conn (sock w3) = None" and l3: "\<not> lock (sock w3)"
    by (auto simp: gate_inv_def)
  from c3 e3 l3 show ?thesis
    by (simp add: ftpPassiveSocket_Read_def ftpPassiveSocket_Write_def waitForOpenSocket_free)
qed

theorem failed_accept_is_terminal_witness:
  "snd (newPassiveSocket good_net ''192.0.2.1'' 0 ''session-1'' None) = Inr fresh_world \<and>
   run [GoroutineLock] fresh_world = Some (accepting_world, [NoResult]) \<and>
   step (GoroutineAccept (Inl (NetError ''use of closed network connection''))) accepting_world
     = Some (failed_world, NoResult) \<and>
   run [CallClose None] failed_world = Some (failed_world, [CloseResult None]) \<and>
   err (sock failed_world) = Some (NetError ''use of closed network connection'') \<and>
   step (CallRead (3, None)) failed_world
     = Some (failed_world, IOResult 0 (Some (NetError ''use of closed network connection''))) \<and>
   step (CallWrite (3, None)) failed_world
     = Some (failed_world, IOResult 0 (Some (NetError ''use of closed network connection'')))"
proof -
  have h: "snd (newPassiveSocket good_net ''192.0.2.1'' 0 ''session-1'' None) = Inr fresh_world"
    by (simp add: fresh_world_new)
  from failed_accept_is_terminal [OF h run_to_accepting step_to_failed close_failed,
      of "(3, None)" "(3, None)"] h run_to_accepting step_to_failed close_failed
  show ?thesis by simp
qed

subsection \<open>The port of a passive socket\<close>

text \<open>
  Claim C4: a passive socket constructed with requested port 0 has, when the constructor
  returns, the port of the address its listener is bound to, read back through the
  address's string; \<^verbatim>\<open>Port()\<close> returns it then and in every later state. The operating
  system binds a listener to a port from 1 to 65535 (the hypothesis \<open>os\<close>), so the
  port is not 0 and is a valid port.
\<close>

theorem passive_port_is_bound_port:
  assumes new: "snd (newPassiveSocket nw h 0 sid c) = Inr w"
    and os: "\<And>laddr b. ListenTCP nw laddr = Inr b \<Longrightarrow> 0 < Port b \<and> Port b < 65536"
  shows "\<exists>laddr b.
           ResolveTCPAddr nw '':0'' = Inr laddr \<and> ListenTCP nw laddr = Inr b \<and>
           task w = Spawned (TCPListener b) \<and>
           Atoi (last (Split (TCPAddr_String (Addr (TCPListener b))) CHR '':''))
             = Inr (ftpPassiveSocket_Port (sock w)) \<and>
           ftpPassiveSocket_Port (sock w) = Port b \<and>
           ftpPassiveSocket_Port (sock w) \<noteq> 0 \<and>
           0 < ftpPassiveSocket_Port (sock w) \<and> ftpPassiveSocket_Port (sock w) < 65536 \<and>
           (\<forall>evs w2 rs. run evs w = Some (w2, rs) \<longrightarrow>
                ftpPassiveSocket_Port (sock w2) = Port b)"
proof -
  from newPassiveSocket_Inr [OF new] obtain laddr b q
    where res: "ResolveTCPAddr nw (JoinHostPort [] (Itoa 0)) = Inr laddr"
      and lis: "ListenTCP nw laddr = Inr b"
      and q: "Atoi (Itoa (Port b)) = Inr q"
      and t: "task w = Spawned (TCPListener b)" and pq: "port (sock w) = q"
    by auto
  from os [OF lis] have range: "0 < Port b" "Port b < 65536" by simp_all
  then have "Atoi (Itoa (Port b)) = Inr (Port b)" by (intro Atoi_Itoa) simp_all
  with q pq have p: "port (sock w) = Port b" by simp
  have later: "ftpPassiveSocket_Port (sock w2) = Port b" if "run evs w = Some (w2, rs)"
    for evs w2 rs
    using run_host_port [OF that] p by (simp add: ftpPassiveSocket_Port_def)
  from res have "ResolveTCPAddr nw '':0'' = Inr laddr"
    by (simp add: JoinHostPort_empty Itoa_0)
  moreover from q pq
  have "Atoi (last (Split (TCPAddr_String (Addr (TCPListener b))) CHR '':''))
          = Inr (ftpPassiveSocket_Port (sock w))"
    by (simp add: last_Split_TCPAddr_String ftpPassiveSocket_Port_def)
  ultimately show ?thesis using lis t p range later
    by (auto simp: ftpPassiveSocket_Port_def)
qed

theorem passive_port_is_bound_port_witness:
  "snd (newPassiveSocket good_net ''192.0.2.1'' 0 ''session-1'' None) = Inr fresh_world \<and>
   ListenTCP good_net wildcard_addr = Inr bound_addr \<and>
   0 < Port bound_addr \<and> Port bound_addr < 65536 \<and>
   ftpPassiveSocket_Port (sock fresh_world) = 40123 \<and>
   run [GoroutineLock] fresh_world = Some (accepting_world, [NoResult]) \<and>
   ftpPassiveSocket_Port (sock accepting_world) = 40123"
proof -
  have h: "snd (newPassiveSocket good_net ''192.0.2.1'' 0 ''session-1'' None) = Inr fresh_world"
    by (simp add: fresh_world_new)
  have os: "0 < Port b \<and> Port b < 65536" if "ListenTCP good_net laddr = Inr b" for laddr b
    using that by (auto simp: good_net_def bound_addr_def)
  have l: "ListenTCP good_net wildcard_addr = Inr bound_addr" by (simp add: good_net_def)
  from passive_port_is_bound_port [OF h os] obtain b
    where b: "ListenTCP good_net wildcard_addr = Inr b"
      and now: "ftpPassiveSocket_Port (sock fresh_world) = Port b"
      and later: "\<forall>evs w2 rs. run evs fresh_world = Some (w2, rs) \<longrightarrow>
                    ftpPassiveSocket_Port (sock w2) = Port b"
    by (auto simp: good_net_def)
  from b l have "b = bound_addr" by simp
  then have pb: "Port b = 40123" by (simp add: bound_addr_def)
  from later run_to_accepting
  have acc: "ftpPassiveSocket_Port (sock accepting_world) = Port b" by blast
  from h l os [OF l] now acc pb run_to_accepting show ?thesis by simp
qed

subsection \<open>One accept, one outcome\<close>

lemma accept_can_return:
  assumes "accepts_left w = 1" and "gate_inv w"
  shows "(\<exists>w2 rs. run [GoroutineLock, GoroutineAccept res] w = Some (w2, rs)) \<or>
         (\<exists>w2 rs. run [GoroutineAccept res] w = Some (w2, rs))"
proof (cases "task w")
  case (Spawned l)
  with assms(2) have "\<not> lock (sock w)" by (simp add: gate_inv_def)
  with Spawned have "\<exists>w2 rs. run [GoroutineLock, GoroutineAccept res] w = Some (w2, rs)"
    by (simp add: goroutine_lock_def goroutine_accept_def Let_def)
  then show ?thesis ..
next
  case (Accepting l)
  then have "\<exists>w2 rs. run [GoroutineAccept res] w = Some (w2, rs)"
    by (simp add: goroutine_accept_def Let_def)
  then show ?thesis ..
next
  case Finished
  with assms(1) show ?thesis by (simp add: accepts_left_def)
qed

text \<open>
  Claim C5: in every schedule of a passive socket the accept of the goroutine returns at
  most once. Before it has returned the socket has neither a connection nor an error,
  and nothing the caller does keeps the goroutine from taking its steps once the
  operating system's accept returns, whatever it returns; once it has returned the
  socket has a connection or an error and not both; and from then on, whatever happens,
  a recorded connection is not replaced and a recorded error is not cleared.
\<close>

theorem single_accept_outcome:
  assumes new: "snd (newPassiveSocket nw h p sid c) = Inr w0"
    and r: "run evs w0 = Some (w1, rs)"
  shows "length (filter is_accept evs) \<le> 1 \<and>
         (length (filter is_accept evs) = 0 \<longrightarrow>
            conn (sock w1) = None \<and> err (sock w1) = None \<and>
            (\<forall>res. (\<exists>w2 rs'. run [GoroutineLock, GoroutineAccept res] w1 = Some (w2, rs')) \<or>
                   (\<exists>w2 rs'. run [GoroutineAccept res] w1 = Some (w2, rs')))) \<and>
         (length (filter is_accept evs) = 1 \<longrightarrow>
            (conn (sock w1) = None) \<noteq> (err (sock w1) = None)) \<and>
         (\<forall>evs' w2 rs'. run evs' w1 = Some (w2, rs') \<longrightarrow>
            (\<forall>c1. conn (sock w1) = Some c1 \<longrightarrow> conn (sock w2) = Some c1) \<and>
            (\<forall>e. err (sock w1) = Some e \<longrightarrow> err (sock w2) = Some e))"
proof -
  have g1: "gate_inv w1" using run_gate_inv [OF gate_inv_new [OF new] r] .
  from newPassiveSocket_Inr [OF new] have "accepts_left w0 = 1"
    by (auto simp: accepts_left_def)
  with run_accepts_left [OF r]
  have n: "length (filter is_accept evs) + accepts_left w1 = 1" by simp
  then have le: "length (filter is_accept evs) \<le> 1" by simp
  have none: "conn (sock w1) = None \<and> err (sock w1) = None \<and>
            (\<forall>res. (\<exists>w2 rs'. run [GoroutineLock, GoroutineAccept res] w1 = Some (w2, rs')) \<or>
                   (\<exists>w2 rs'. run [GoroutineAccept res] w1 = Some (w2, rs')))"
    if z: "length (filter is_accept evs) = 0"
  proof -
    from z n have l: "accepts_left w1 = 1" by simp
    with g1 have "conn (sock w1) = None \<and> err (sock w1) = None"
      by (auto simp: accepts_left_def gate_inv_def split: task.splits)
    moreover have "(\<exists>w2 rs'. run [GoroutineLock, GoroutineAccept res] w1 = Some (w2, rs')) \<or>
                   (\<exists>w2 rs'. run [GoroutineAccept res] w1 = Some (w2, rs'))" for res
      using l g1 by (rule accept_can_return)
    ultimately show ?thesis by blast
  qed
  have one: "(conn (sock w1) = None) \<noteq> (err (sock w1) = None)"
    if "length (filter is_accept evs) = 1"
    using that n g1 by (auto simp: accepts_left_def gate_inv_def split: task.splits)
  have keep: "(\<forall>c1. conn (sock w1) = Some c1 \<longrightarrow> conn (sock w2) = Some c1) \<and>
              (\<forall>e. err (sock w1) = Some e \<longrightarrow> err (sock w2) = Some e)"
    if "run evs' w1 = Some (w2, rs')" for evs' w2 rs'
    using run_keeps_outcome [OF g1 that] by blast
  from le none one keep show ?thesis by blast
qed

theorem single_accept_outcome_witness:
  "snd (newPassiveSocket good_net ''192.0.2.1'' 0 ''session-1'' None) = Inr fresh_world \<and>
   run [GoroutineLock] fresh_world = Some (accepting_world, [NoResult]) \<and>
   length (filter is_accept [GoroutineLock]) = 0 \<and>
   conn (sock accepting_world) = None \<and> err (sock accepting_world) = None \<and>
   run [GoroutineLock, GoroutineAccept (Inr 5)] fresh_world
     = Some (connected_world, [NoResult, NoResult]) \<and>
   length (filter is_accept [GoroutineLock, GoroutineAccept (Inr 5)]) = 1 \<and>
   conn (sock connected_world) = Some (TCPConn 5) \<and> err (sock connected_world) = None \<and>
   run [CallRead (3, None)] connected_world
     = Some (connected_world\<lparr>trace := trace connected_world @ [ConnRead (TCPConn 5)]\<rparr>,
             [IOResult 3 None]) \<and>
   conn (sock (connected_world\<lparr>trace := trace connected_world @ [ConnRead (TCPConn 5)]\<rparr>))
     = Some (TCPConn 5)"
proof -
  have h: "snd (newPassiveSocket good_net ''192.0.2.1'' 0 ''session-1'' None) = Inr fresh_world"
    by (simp add: fresh_world_new)
  from single_accept_outcome [OF h run_to_accepting]
  have pending: "conn (sock accepting_world) = None \<and> err (sock accepting_world) = None"
    by simp
  from single_accept_outcome [OF h run_to_connected] pending h run_to_accepting
    run_to_connected read_connected
  show ?thesis by (simp add: connected_world_def)
qed

subsection \<open>Close\<close>

text \<open>
  Claim C6: \<^verbatim>\<open>Close\<close> on a passive socket never blocks. With a connection it closes the
  connection and returns what the connection's \<^verbatim>\<open>Close\<close> returns; without one it
  returns nil and does nothing at all: the socket, the goroutine with its listener and
  the effects are as before, so the listener is not closed.
\<close>

theorem passive_close:
  "(conn (sock w) = Some c \<longrightarrow>
      ftpPassiveSocket_Close (sock w) r = (sock w, [ConnClose c], r) \<and>
      step (CallClose r) w = Some (w\<lparr>trace := trace w @ [ConnClose c]\<rparr>, CloseResult r)) \<and>
   (conn (sock w) = None \<longrightarrow>
      ftpPassiveSocket_Close (sock w) r = (sock w, [], None) \<and>
      step (CallClose r) w = Some (w, CloseResult None))"
  by (simp add: ftpPassiveSocket_Close_def)

theorem passive_close_witness:
  "conn (sock connected_world) = Some (TCPConn 5) \<and>
   step (CallClose (Some (NetError ''broken pipe''))) connected_world
     = Some (connected_world\<lparr>trace := trace connected_world @ [ConnClose (TCPConn 5)]\<rparr>,
             CloseResult (Some (NetError ''broken pipe''))) \<and>
   conn (sock accepting_world) = None \<and>
   step (CallClose (Some (NetError ''broken pipe''))) accepting_world
     = Some (accepting_world, CloseResult None) \<and>
   conn (sock failed_world) = None \<and>
   step (CallClose (Some (NetError ''broken pipe''))) failed_world
     = Some (failed_world, CloseResult None)"
proof -
  have c: "conn (sock connected_world) = Some (TCPConn 5)"
    by (simp add: connected_world_def)
  have a: "conn (sock accepting_world) = None" by (simp add: accepting_world_def)
  have f: "conn (sock failed_world) = None" by (simp add: failed_world_def)
  from passive_close [of connected_world "TCPConn 5" "Some (NetError ''broken pipe'')"]
    passive_close [of accepting_world "TCPConn 0" "Some (NetError ''broken pipe'')"]
    passive_close [of failed_world "TCPConn 0" "Some (NetError ''broken pipe'')"]
    c a f
  show ?thesis by simp
qed

subsection \<open>Failed construction\<close>

text \<open>
  Claim C7: when the address resolution or the dial of the active constructor fails, or
  the address resolution or the bind of the passive constructor, the constructor returns
  that error and no socket, after exactly the calls listed: each call of package
  \<^verbatim>\<open>net\<close> is made once and not again, and in the passive case no goroutine is started.
\<close>

theorem construction_fails_synchronously:
  "(ResolveTCPAddr nw (JoinHostPort remote (Itoa p)) = Inl e \<longrightarrow>
      newActiveSocket nw remote p sid =
        ([Print sid (Text (''Opening active data connection to '' @ JoinHostPort remote (Itoa p))),
          CallResolveTCPAddr (JoinHostPort remote (Itoa p)),
          Print sid (Err e)], Inl e)) \<and>
   (ResolveTCPAddr nw (JoinHostPort remote (Itoa p)) = Inr raddr \<and> DialTCP nw raddr = Inl e \<longrightarrow>
      newActiveSocket nw remote p sid =
        ([Print sid (Text (''Opening active data connection to '' @ JoinHostPort remote (Itoa p))),
          CallResolveTCPAddr (JoinHostPort remote (Itoa p)),
          CallDialTCP raddr,
          Print sid (Err e)], Inl e)) \<and>
   (ResolveTCPAddr nw (JoinHostPort [] (Itoa p)) = Inl e \<longrightarrow>
      newPassiveSocket nw h p sid c =
        ([CallResolveTCPAddr (JoinHostPort [] (Itoa p)), Print sid (Err e)], Inl e)) \<and>
   (ResolveTCPAddr nw (JoinHostPort [] (Itoa p)) = Inr laddr \<and> ListenTCP nw laddr = Inl e \<longrightarrow>
      newPassiveSocket nw h p sid c =
        ([CallResolveTCPAddr (JoinHostPort [] (Itoa p)), CallListenTCP laddr,
          Print sid (Err e)], Inl e)) \<and>
   (\<forall>e'. snd (newPassiveSocket nw h p sid c) = Inl e' \<longrightarrow>
      (\<forall>l. GoAccept l \<notin> set (fst (newPassiveSocket nw h p sid c))))"
  by (auto simp: newActiveSocket_def newPassiveSocket_def GoListenAndServe_def Let_def
           split: sum.splits)

theorem construction_fails_synchronously_witness:
  "newActiveSocket unresolving_net ''client.example'' 2121 ''session-1'' =
     ([Print ''session-1'' (Text ''Opening active data connection to client.example:2121''),
       CallResolveTCPAddr ''client.example:2121'',
       Print ''session-1'' (Err (NetError ''no such host''))],
      Inl (NetError ''no such host'')) \<and>
   newActiveSocket refusing_net ''client.example'' 2121 ''session-1'' =
     ([Print ''session-1'' (Text ''Opening active data connection to client.example:2121''),
       CallResolveTCPAddr ''client.example:2121'',
       CallDialTCP wildcard_addr,
       Print ''session-1'' (Err (NetError ''connection refused''))],
      Inl (NetError ''connection refused'')) \<and>
   newPassiveSocket unresolving_net ''192.0.2.1'' 2121 ''session-1'' None =
     ([CallResolveTCPAddr '':2121'', Print ''session-1'' (Err (NetError ''no such host''))],
      Inl (NetError ''no such host'')) \<and>
   newPassiveSocket refusing_net ''192.0.2.1'' 2121 ''session-1'' None =
     ([CallResolveTCPAddr '':2121'', CallListenTCP wildcard_addr,
       Print ''session-1'' (Err (NetError ''address already in use''))],
      Inl (NetError ''address already in use'')) \<and>
   (\<forall>l. GoAccept l \<notin> set (fst (newPassiveSocket refusing_net ''192.0.2.1'' 2121 ''session-1'' None)))"
proof -
  have i: "Itoa 2121 = ''2121''"
    by (simp add: Itoa_def FormatUint_small FormatUint_large digit_char_def)
  have j: "JoinHostPort ''client.example'' ''2121'' = ''client.example:2121''"
    "JoinHostPort [] ''2121'' = '':2121''"
    by (simp_all add: JoinHostPort_def)
  have r1: "ResolveTCPAddr unresolving_net s = Inl (NetError ''no such host'')" for s
    by (simp add: unresolving_net_def)
  have r2: "ResolveTCPAddr refusing_net s = Inr wildcard_addr" for s
    by (simp add: refusing_net_def)
  have d2: "DialTCP refusing_net a = Inl (NetError ''connection refused'')" for a
    by (simp add: refusing_net_def)
  have l2: "ListenTCP refusing_net a = Inl (NetError ''address already in use'')" for a
    by (simp add: refusing_net_def)
  from construction_fails_synchronously
         [of unresolving_net "''client.example''" 2121 "NetError ''no such host''"
             "''session-1''" wildcard_addr "''192.0.2.1''" None wildcard_addr]
       construction_fails_synchronously
         [of refusing_net "''client.example''" 2121 "NetError ''connection refused''"
             "''session-1''" wildcard_addr "''192.0.2.1''" None wildcard_addr]
       construction_fails_synchronously
         [of refusing_net "''client.example''" 2121 "NetError ''address already in use''"
             "''session-1''" wildcard_addr "''192.0.2.1''" None wildcard_addr]
       r1 r2 d2 l2
  show ?thesis by (simp add: i j)
qed

subsection \<open>Diagnostic lines\<close>

text \<open>
  Claim C8 says that every error path emits exactly one diagnostic line, the failed
  accept of the goroutine included. The goroutine records the error and prints nothing:
  on the network \<open>good_net\<close> the socket is constructed without a diagnostic line, the
  accept fails, the error is recorded, a later \<^verbatim>\<open>Read\<close> returns it, and still no
  diagnostic line has been emitted.
\<close>

theorem failed_accept_prints_nothing:
  "snd (newPassiveSocket good_net ''192.0.2.1'' 0 ''session-1'' None) = Inr fresh_world \<and>
   run [GoroutineLock, GoroutineAccept (Inl (NetError ''use of closed network connection'')),
        CallRead (3, None)] fresh_world
     = Some (failed_world,
             [NoResult, NoResult,
              IOResult 0 (Some (NetError ''use of closed network connection''))]) \<and>
   err (sock failed_world) = Some (NetError ''use of closed network connection'') \<and>
   diagnostics (trace failed_world) = [] \<and>
   length (diagnostics (trace failed_world)) \<noteq> 1"
  by (simp add: fresh_world_new)
     (simp add: fresh_world_def failed_world_def goroutine_lock_def goroutine_accept_def
        ftpPassiveSocket_Read_def waitForOpenSocket_def)

text \<open>
  Claim C8 as amended: whenever a constructor fails, for whichever reason, its
  diagnostic lines are all tagged with the session identifier and exactly one of them
  carries the error, which is the error returned; the active constructor has printed its
  opening line before. \<^verbatim>\<open>Close\<close> on a passive socket without a connection returns nil
  and emits nothing.
\<close>

theorem construction_errors_are_printed_once:
  "(snd (newActiveSocket nw remote p sid) = Inl e \<longrightarrow>
      diagnostics (fst (newActiveSocket nw remote p sid)) =
        [(sid, Text (''Opening active data connection to '' @ JoinHostPort remote (Itoa p))),
         (sid, Err e)]) \<and>
   (snd (newPassiveSocket nw h p sid c) = Inl e \<longrightarrow>
      diagnostics (fst (newPassiveSocket nw h p sid c)) = [(sid, Err e)]) \<and>
   (conn (sock w) = None \<longrightarrow> step (CallClose r) w = Some (w, CloseResult None))"
  by (auto simp: newActiveSocket_def newPassiveSocket_def GoListenAndServe_def Let_def
        ftpPassiveSocket_Close_def split: sum.splits)

theorem construction_errors_are_printed_once_witness:
  "snd (newActiveSocket refusing_net ''client.example'' 2121 ''session-1'')
     = Inl (NetError ''connection refused'') \<and>
   diagnostics (fst (newActiveSocket refusing_net ''client.example'' 2121 ''session-1'')) =
     [(''session-1'', Text ''Opening active data connection to client.example:2121''),
      (''session-1'', Err (NetError ''connection refused''))] \<and>
   snd (newPassiveSocket refusing_net ''192.0.2.1'' 2121 ''session-1'' None)
     = Inl (NetError ''address already in use'') \<and>
   diagnostics (fst (newPassiveSocket refusing_net ''192.0.2.1'' 2121 ''session-1'' None)) =
     [(''session-1'', Err (NetError ''address already in use''))] \<and>
   conn (sock accepting_world) = None \<and>
   step (CallClose None) accepting_world = Some (accepting_world, CloseResult None)"
proof -
  have i: "Itoa 2121 = ''2121''"
    by (simp add: Itoa_def FormatUint_small FormatUint_large digit_char_def)
  have j: "JoinHostPort ''client.example'' ''2121'' = ''client.example:2121''"
    by (simp add: JoinHostPort_def)
  have a: "snd (newActiveSocket refusing_net ''client.example'' 2121 ''session-1'')
             = Inl (NetError ''connection refused'')"
    by (simp add: newActiveSocket_def refusing_net_def Let_def)
  have b: "snd (newPassiveSocket refusing_net ''192.0.2.1'' 2121 ''session-1'' None)
             = Inl (NetError ''address already in use'')"
    by (simp add: newPassiveSocket_def GoListenAndServe_def refusing_net_def Let_def)
  have n: "conn (sock accepting_world) = None" by (simp add: accepting_world_def)
  from construction_errors_are_printed_once
         [of refusing_net "''client.example''" 2121 "''session-1''"
             "NetError ''connection refused''" "''192.0.2.1''" None accepting_world None]
       construction_errors_are_printed_once
         [of refusing_net "''client.example''" 2121 "''session-1''"
             "NetError ''address already in use''" "''192.0.2.1''" None accepting_world None]
       a b n
  show ?thesis by (simp add: i j)
qed

subsection \<open>Host and port of an active socket\<close>

lemma active_calls_id: "active_calls cs s = s"
proof (induction cs)
  case Nil
  then show ?case by simp
next
  case (Cons x cs)
  then show ?case
    by (cases x)
       (simp_all add: ftpActiveSocket_Read_def ftpActiveSocket_Write_def
          ftpActiveSocket_Close_def)
qed

text \<open>
  Claim C9: when the active constructor succeeds, \<^verbatim>\<open>Host()\<close> and \<^verbatim>\<open>Port()\<close> of the
  socket are the requested host and port, and they still are after any sequence of
  \<^verbatim>\<open>Read\<close>, \<^verbatim>\<open>Write\<close> and \<^verbatim>\<open>Close\<close> calls.
\<close>

theorem active_host_port:
  assumes "snd (newActiveSocket nw remote p sid) = Inr s"
  shows "ftpActiveSocket_Host s = remote \<and> ftpActiveSocket_Port s = p \<and>
         (\<forall>cs. ftpActiveSocket_Host (active_calls cs s) = remote \<and>
               ftpActiveSocket_Port (active_calls cs s) = p)"
  using assms
  by (auto simp: newActiveSocket_def Let_def ftpActiveSocket_Host_def ftpActiveSocket_Port_def
        active_calls_id split: sum.splits)

theorem active_host_port_witness:
  "snd (newActiveSocket good_net ''client.example'' 2121 ''session-1'')
     = Inr \<lparr>ftpActiveSocket.conn = 7, ftpActiveSocket.host = ''client.example'',
            ftpActiveSocket.port = 2121\<rparr> \<and>
   ftpActiveSocket_Host \<lparr>ftpActiveSocket.conn = 7, ftpActiveSocket.host = ''client.example'',
            ftpActiveSocket.port = 2121\<rparr> = ''client.example'' \<and>
   ftpActiveSocket_Port (active_calls [ActiveRead (3, None), ActiveClose None]
          \<lparr>ftpActiveSocket.conn = 7, ftpActiveSocket.host = ''client.example'',
            ftpActiveSocket.port = 2121\<rparr>) = 2121"
proof -
  have h: "snd (newActiveSocket good_net ''client.example'' 2121 ''session-1'')
     = Inr \<lparr>ftpActiveSocket.conn = 7, ftpActiveSocket.host = ''client.example'',
            ftpActiveSocket.port = 2121\<rparr>"
    by (simp add: newActiveSocket_def good_net_def Let_def)
  from active_host_port [OF h]
  have a: "ftpActiveSocket_Host \<lparr>ftpActiveSocket.conn = 7, ftpActiveSocket.host = ''client.example'',
            ftpActiveSocket.port = 2121\<rparr> = ''client.example''"
    and b: "ftpActiveSocket_Port (active_calls [ActiveRead (3, None), ActiveClose None]
          \<lparr>ftpActiveSocket.conn = 7, ftpActiveSocket.host = ''client.example'',
            ftpActiveSocket.port = 2121\<rparr>) = 2121"
    by blast+
  from h a b show ?thesis by (intro conjI)
qed

subsection \<open>The bind address of a passive socket\<close>

text \<open>
  Claim C10: the passive constructor's calls do not depend on the host it is given. The
  address it resolves is the empty host joined with the port, \<^verbatim>\<open>":" + port\<close>, and
  nothing else is resolved; the listener is bound to what that address resolved to. The
  socket nonetheless answers \<^verbatim>\<open>Host()\<close> with the host given to the constructor, then and
  in every later state.
\<close>

theorem passive_bind_ignores_host:
  "fst (newPassiveSocket nw h p sid c) = fst (newPassiveSocket nw h' p sid c) \<and>
   (\<exists>rest. fst (newPassiveSocket nw h p sid c) = CallResolveTCPAddr (CHR '':'' # Itoa p) # rest) \<and>
   (\<forall>a. CallResolveTCPAddr a \<in> set (fst (newPassiveSocket nw h p sid c)) \<longrightarrow>
        a = JoinHostPort [] (Itoa p) \<and> a = CHR '':'' # Itoa p) \<and>
   (\<forall>la. CallListenTCP la \<in> set (fst (newPassiveSocket nw h p sid c)) \<longrightarrow>
        ResolveTCPAddr nw (CHR '':'' # Itoa p) = Inr la) \<and>
   (\<forall>w. snd (newPassiveSocket nw h p sid c) = Inr w \<longrightarrow>
        ftpPassiveSocket_Host (sock w) = h \<and>
        (\<forall>evs w2 rs. run evs w = Some (w2, rs) \<longrightarrow> ftpPassiveSocket_Host (sock w2) = h))"
proof -
  have fx: "fst (newPassiveSocket nw h p sid c) = fst (newPassiveSocket nw h' p sid c) \<and>
   (\<exists>rest. fst (newPassiveSocket nw h p sid c) = CallResolveTCPAddr (CHR '':'' # Itoa p) # rest) \<and>
   (\<forall>a. CallResolveTCPAddr a \<in> set (fst (newPassiveSocket nw h p sid c)) \<longrightarrow>
        a = JoinHostPort [] (Itoa p) \<and> a = CHR '':'' # Itoa p) \<and>
   (\<forall>la. CallListenTCP la \<in> set (fst (newPassiveSocket nw h p sid c)) \<longrightarrow>
        ResolveTCPAddr nw (CHR '':'' # Itoa p) = Inr la)"
    by (auto simp: newPassiveSocket_def GoListenAndServe_def Let_def JoinHostPort_empty
          split: sum.splits)
  have hs: "ftpPassiveSocket_Host (sock w) = h \<and>
        (\<forall>evs w2 rs. run evs w = Some (w2, rs) \<longrightarrow> ftpPassiveSocket_Host (sock w2) = h)"
    if new: "snd (newPassiveSocket nw h p sid c) = Inr w" for w
  proof -
    from newPassiveSocket_Inr [OF new] have "host (sock w) = h" by auto
    then show ?thesis using run_host_port by (auto simp: ftpPassiveSocket_Host_def)
  qed
  from fx hs show ?thesis by blast
qed

theorem passive_bind_ignores_host_witness:
  "newPassiveSocket good_net ''192.0.2.1'' 0 ''session-1'' None
     = ([CallResolveTCPAddr '':0'', CallListenTCP wildcard_addr,
         GoAccept (TCPListener bound_addr)], Inr fresh_world) \<and>
   fst (newPassiveSocket good_net ''192.0.2.1'' 0 ''session-1'' None)
     = fst (newPassiveSocket good_net ''198.51.100.7'' 0 ''session-1'' None) \<and>
   ResolveTCPAddr good_net '':0'' = Inr wildcard_addr \<and>
   ftpPassiveSocket_Host (sock fresh_world) = ''192.0.2.1'' \<and>
   run [GoroutineLock] fresh_world = Some (accepting_world, [NoResult]) \<and>
   ftpPassiveSocket_Host (sock accepting_world) = ''192.0.2.1''"
proof -
  have h: "newPassiveSocket good_net ''192.0.2.1'' 0 ''session-1'' None
     = ([CallResolveTCPAddr '':0'', CallListenTCP wildcard_addr,
         GoAccept (TCPListener bound_addr)], Inr fresh_world)"
    by (simp add: fresh_world_new) (simp add: fresh_world_def)
  have r: "ResolveTCPAddr good_net '':0'' = Inr wildcard_addr" by (simp add: good_net_def)
  note t = passive_bind_ignores_host
         [of good_net "''192.0.2.1''" 0 "''session-1''" None "''198.51.100.7''"]
  have new: "snd (newPassiveSocket good_net ''192.0.2.1'' 0 ''session-1'' None) = Inr fresh_world"
    by (simp add: h)
  from t have same: "fst (newPassiveSocket good_net ''192.0.2.1'' 0 ''session-1'' None)
     = fst (newPassiveSocket good_net ''198.51.100.7'' 0 ''session-1'' None)"
    by blast
  from t new have now: "ftpPassiveSocket_Host (sock fresh_world) = ''192.0.2.1''"
    and later: "\<forall>evs w2 rs. run evs fresh_world = Some (w2, rs) \<longrightarrow>
                  ftpPassiveSocket_Host (sock w2) = ''192.0.2.1''"
    by blast+
  from later run_to_accepting
  have acc: "ftpPassiveSocket_Host (sock accepting_world) = ''192.0.2.1''" by blast
  from h same r now run_to_accepting acc show ?thesis by (intro conjI)
qed

end
